theory Spec2Isabelle
  imports Complex_Main "HOL-Library.Sublist" "HOL-Library.Multiset"
begin

section \<open>Python values and failures\<close>

text \<open>
  Failures of the Python code are values: every function that can raise returns
  \<open>error + 'a\<close>, with \<open>Inl\<close> for the exception. \<open>Raised\<close> carries an exception thrown
  by user code that the library only passes through.
\<close>

datatype error = KeyError | TypeError | ValueError | AttributeError | Raised string

text \<open>
  A Python \<open>dict\<close> with string keys is an association list (the order of the keys is
  the insertion order, which \<open>sorted(PRICING.keys(), ...)\<close> depends on). \<open>d[k]\<close> raises
  \<open>KeyError\<close> on a missing key.
\<close>

definition getitem :: "(string \<times> 'v) list \<Rightarrow> string \<Rightarrow> error + 'v" where
  "getitem d k = (case map_of d k of None \<Rightarrow> Inl KeyError | Some v \<Rightarrow> Inr v)"

text \<open>Python's \<open>a in b\<close> on two strings: \<open>a\<close> occurs in \<open>b\<close> as a contiguous run.\<close>

fun str_in :: "string \<Rightarrow> string \<Rightarrow> bool" where
  "str_in s [] = (s = [])"
| "str_in s (c # cs) = (prefix s (c # cs) \<or> str_in s cs)"

section \<open>pricing.py\<close>

text \<open>
  Prices are USD per million tokens. The source holds them as binary doubles; the model
  holds them, and every cost computed from them, as exact rationals.
\<close>

type_synonym price = "(string \<times> rat) list"

definition PRICING :: "(string \<times> price) list" where
  "PRICING =
    [(''claude-3-5-sonnet-20241022'', [(''input'', 3.00), (''output'', 15.00)]),
     (''claude-3-5-haiku-20241022'', [(''input'', 0.80), (''output'', 4.00)]),
     (''claude-opus-4'', [(''input'', 15.00), (''output'', 75.00)]),
     (''claude-sonnet-4'', [(''input'', 3.00), (''output'', 15.00)]),
     (''gpt-4o'', [(''input'', 2.50), (''output'', 10.00)]),
     (''gpt-4o-mini'', [(''input'', 0.15), (''output'', 0.60)]),
     (''gpt-4-turbo'', [(''input'', 10.00), (''output'', 30.00)]),
     (''o1'', [(''input'', 15.00), (''output'', 60.00)]),
     (''o1-mini'', [(''input'', 3.00), (''output'', 12.00)]),
     (''gemini-1.5-pro'', [(''input'', 1.25), (''output'', 5.00)]),
     (''gemini-1.5-flash'', [(''input'', 0.075), (''output'', 0.30)]),
     (''gemini-2.0-flash'', [(''input'', 0.10), (''output'', 0.40)])]"

text \<open>
  \<open>sorted(PRICING.keys(), key=len, reverse=True)\<close>: a stable sort by descending length
  (keys of equal length keep the order of the table).
\<close>

definition SORTED_MODELS :: "string list" where
  "SORTED_MODELS = sort_key (\<lambda>k. - int (length k)) (map fst PRICING)"

definition get_model_pricing :: "string \<Rightarrow> error + price" where
  "get_model_pricing model =
     (if model \<in> set (map fst PRICING) then getitem PRICING model
      else case find (\<lambda>known_model. str_in known_model model) SORTED_MODELS of
        Some known_model \<Rightarrow> getitem PRICING known_model
      | None \<Rightarrow>
         (case find (\<lambda>known_model. str_in model known_model) SORTED_MODELS of
            Some known_model \<Rightarrow> getitem PRICING known_model
          | None \<Rightarrow> Inr []))"

definition calculate_cost :: "string \<Rightarrow> int \<Rightarrow> int \<Rightarrow> error + rat" where
  "calculate_cost model input_tokens output_tokens =
     (case get_model_pricing model of
        Inl e \<Rightarrow> Inl e
      | Inr pricing \<Rightarrow>
          if pricing = [] then Inr 0.0
          else (case getitem pricing ''input'' of
                  Inl e \<Rightarrow> Inl e
                | Inr price_in \<Rightarrow>
                   (case getitem pricing ''output'' of
                      Inl e \<Rightarrow> Inl e
                    | Inr price_out \<Rightarrow>
                        Inr (of_int input_tokens / 1000000 * price_in
                             + of_int output_tokens / 1000000 * price_out))))"

section \<open>Python values seen by tracker.py\<close>

text \<open>
  The responses that the tracker inspects are built from \<open>None\<close>, integers, strings,
  dicts with string keys and plain objects with named attributes.
\<close>

datatype pyval =
    PNone
  | PInt int
  | PStr string
  | PDict "(string \<times> pyval) list"
  | PObj "(string \<times> pyval) list"

text \<open>Truth value of a Python value, as \<open>if x\<close> and \<open>x or y\<close> test it.\<close>

fun truthy :: "pyval \<Rightarrow> bool" where
  "truthy PNone = False"
| "truthy (PInt n) = (n \<noteq> 0)"
| "truthy (PStr s) = (s \<noteq> [])"
| "truthy (PDict d) = (d \<noteq> [])"
| "truthy (PObj attrs) = True"

definition py_or :: "pyval \<Rightarrow> pyval \<Rightarrow> pyval" where
  "py_or a b = (if truthy a then a else b)"

text \<open>
  \<open>getattr(x, name, default)\<close> for the attribute names read in tracker.py (\<open>usage\<close>,
  \<open>model\<close> and the four token fields): only an object can carry them.
\<close>

fun getattr :: "pyval \<Rightarrow> string \<Rightarrow> pyval \<Rightarrow> pyval" where
  "getattr (PObj attrs) name dflt = (case map_of attrs name of Some v \<Rightarrow> v | None \<Rightarrow> dflt)"
| "getattr x name dflt = dflt"

text \<open>\<open>d.get(key, default)\<close>.\<close>

definition dict_get :: "(string \<times> pyval) list \<Rightarrow> string \<Rightarrow> pyval \<Rightarrow> pyval" where
  "dict_get d k dflt = (case map_of d k of Some v \<Rightarrow> v | None \<Rightarrow> dflt)"

text \<open>
  \<open>int(x)\<close>. An integer is returned as it is; \<open>None\<close>, a dict and a plain object raise
  \<open>TypeError\<close>; a string is read as a decimal literal (blanks around it, an optional
  sign, digits that single underscores may separate) and raises \<open>ValueError\<close> otherwise.
  The interpreter's limit on the number of digits is left out.
\<close>

definition is_digit :: "char \<Rightarrow> bool" where
  "is_digit c = (48 \<le> (of_char c :: nat) \<and> (of_char c :: nat) \<le> 57)"

definition is_space :: "char \<Rightarrow> bool" where
  "is_space c = ((of_char c :: nat) \<in> set [9, 10, 11, 12, 13, 28, 29, 30, 31, 32])"

fun digits_value :: "nat \<Rightarrow> string \<Rightarrow> nat option" where
  "digits_value acc [] = Some acc"
| "digits_value acc (c # cs) =
     (if is_digit c then digits_value (acc * 10 + (of_char c - 48)) cs
      else if c = CHR ''_'' \<and> cs \<noteq> [] \<and> is_digit (hd cs) then digits_value acc cs
      else None)"

definition int_of_str :: "string \<Rightarrow> int option" where
  "int_of_str s =
     (let t = rev (dropWhile is_space (rev (dropWhile is_space s)));
          neg = (t \<noteq> [] \<and> hd t = CHR ''-'');
          u = (if t \<noteq> [] \<and> (hd t = CHR ''-'' \<or> hd t = CHR ''+'') then tl t else t)
      in if u \<noteq> [] \<and> is_digit (hd u)
         then map_option (\<lambda>n. if neg then - int n else int n) (digits_value 0 u)
         else None)"

fun py_int :: "pyval \<Rightarrow> error + int" where
  "py_int (PInt n) = Inr n"
| "py_int (PStr s) = (case int_of_str s of Some n \<Rightarrow> Inr n | None \<Rightarrow> Inl ValueError)"
| "py_int PNone = Inl TypeError"
| "py_int (PDict d) = Inl TypeError"
| "py_int (PObj attrs) = Inl TypeError"

text \<open>\<open>return int(a), int(b)\<close>: the left conversion runs, and may raise, first.\<close>

definition int_pair :: "pyval \<Rightarrow> pyval \<Rightarrow> error + (int \<times> int)" where
  "int_pair a b =
     (case py_int a of
        Inl e \<Rightarrow> Inl e
      | Inr x \<Rightarrow> (case py_int b of Inl e \<Rightarrow> Inl e | Inr y \<Rightarrow> Inr (x, y)))"

section \<open>store.py\<close>

text \<open>
  The text that \<open>json.dumps\<close> writes is kept as the JSON value it denotes. A plain object
  is not serializable: \<open>json.dumps\<close> raises \<open>TypeError\<close> on it, wherever it is nested.
\<close>

datatype json = JNull | JInt int | JStr string | JObj "(string \<times> json) list"

fun json_dumps :: "pyval \<Rightarrow> error + json"
  and json_dumps_items :: "(string \<times> pyval) list \<Rightarrow> error + (string \<times> json) list" where
  "json_dumps PNone = Inr JNull"
| "json_dumps (PInt n) = Inr (JInt n)"
| "json_dumps (PStr s) = Inr (JStr s)"
| "json_dumps (PObj attrs) = Inl TypeError"
| "json_dumps (PDict d) =
     (case json_dumps_items d of Inl e \<Rightarrow> Inl e | Inr js \<Rightarrow> Inr (JObj js))"
| "json_dumps_items [] = Inr []"
| "json_dumps_items (kv # kvs) =
     (case json_dumps (snd kv) of
        Inl e \<Rightarrow> Inl e
      | Inr j \<Rightarrow>
         (case json_dumps_items kvs of
            Inl e \<Rightarrow> Inl e
          | Inr js \<Rightarrow> Inr ((fst kv, j) # js)))"

text \<open>
  A row of table \<open>calls\<close>; each field is the column of that name. A timestamp is an
  instant in microseconds of UTC: the source stores the \<open>isoformat()\<close> text of a UTC
  \<open>datetime\<close> and compares such texts as texts, which orders them as the instants they
  denote. Failures of the database itself (input and output, a value outside the range
  of its column) are outside the model.
\<close>

record call =
  col_id :: int
  col_timestamp :: int
  col_provider :: string
  col_model :: string
  col_label :: "string option"
  col_file :: "string option"
  col_function :: "string option"
  col_input_tokens :: int
  col_output_tokens :: int
  col_cost_usd :: rat
  col_duration_ms :: rat
  col_metadata_json :: "json option"

text \<open>
  The database: the rows of \<open>calls\<close> in insertion order, and the largest id ever given
  out (\<open>AUTOINCREMENT\<close> never reuses an id, also after a delete).
\<close>

record store =
  calls :: "call list"
  last_id :: int

definition log_call ::
  "int \<Rightarrow> store \<Rightarrow> string \<Rightarrow> string \<Rightarrow> string option \<Rightarrow> string option \<Rightarrow> string option \<Rightarrow>
   int \<Rightarrow> int \<Rightarrow> rat \<Rightarrow> rat \<Rightarrow> (string \<times> pyval) list option \<Rightarrow> (error + int) \<times> store" where
  "log_call now st provider model label file function input_tokens output_tokens cost_usd
     duration_ms metadata =
     (let timestamp = now;
          dumped = (case metadata of
                      None \<Rightarrow> Inr None
                    | Some md \<Rightarrow> if md \<noteq> [] then map_sum id Some (json_dumps (PDict md))
                                else Inr None)
      in case dumped of
           Inl e \<Rightarrow> (Inl e, st)
         | Inr metadata_json \<Rightarrow>
             (let lastrowid = last_id st + 1
              in (Inr lastrowid,
                  st\<lparr>calls := calls st @
                       [\<lparr>col_id = lastrowid, col_timestamp = timestamp,
                         col_provider = provider, col_model = model, col_label = label,
                         col_file = file, col_function = function,
                         col_input_tokens = input_tokens, col_output_tokens = output_tokens,
                         col_cost_usd = cost_usd, col_duration_ms = duration_ms,
                         col_metadata_json = metadata_json\<rparr>],
                     last_id := lastrowid\<rparr>)))"





















section \<open>tracker.py\<close>

definition extract_tokens :: "pyval \<Rightarrow> error + (int \<times> int)" where
  "extract_tokens response =
     (if response = PNone then Inr (0, 0)
      else
        (let usage = getattr response ''usage'' PNone
         in if usage \<noteq> PNone then
              (let prompt = getattr usage ''prompt_tokens'' PNone;
                   completion = getattr usage ''completion_tokens'' PNone
               in if prompt \<noteq> PNone \<and> completion \<noteq> PNone then int_pair prompt completion
                  else
                    (let inp = getattr usage ''input_tokens'' PNone;
                         out = getattr usage ''output_tokens'' PNone
                     in if inp \<noteq> PNone \<and> out \<noteq> PNone then int_pair inp out
                        else int_pair
                               (py_or (getattr usage ''input_tokens'' PNone)
                                      (getattr usage ''prompt_tokens'' (PInt 0)))
                               (py_or (getattr usage ''output_tokens'' PNone)
                                      (getattr usage ''completion_tokens'' (PInt 0)))))
            else
              (case response of
                 PDict d \<Rightarrow>
                   (case dict_get d ''usage'' (PDict []) of
                      PDict usage_dict \<Rightarrow>
                        int_pair
                          (py_or (dict_get usage_dict ''input_tokens'' PNone)
                                 (dict_get usage_dict ''prompt_tokens'' (PInt 0)))
                          (py_or (dict_get usage_dict ''output_tokens'' PNone)
                                 (dict_get usage_dict ''completion_tokens'' (PInt 0)))
                    | _ \<Rightarrow> Inr (0, 0))
               | _ \<Rightarrow> Inr (0, 0))))"

text \<open>
  \<open>_extract_model\<close>. \<open>py_str\<close> is Python's \<open>str\<close>, whose text for a dict or an object is
  the interpreter's and the object's class's business; \<open>None\<close> is \<open>PNone\<close>.
\<close>

definition extract_model :: "(pyval \<Rightarrow> string) \<Rightarrow> pyval \<Rightarrow> pyval" where
  "extract_model py_str response =
     (if response = PNone then PNone
      else
        (let model = getattr response ''model'' PNone
         in if truthy model then PStr (py_str model)
            else (case response of PDict d \<Rightarrow> dict_get d ''model'' PNone | _ \<Rightarrow> PNone)))"

text \<open>\<open>str.lower\<close> and \<open>detect_provider\<close> (pricing.py), on ASCII text.\<close>

definition lower :: "string \<Rightarrow> string" where
  "lower s =
     map (\<lambda>c. if 65 \<le> (of_char c :: nat) \<and> (of_char c :: nat) \<le> 90
              then char_of ((of_char c :: nat) + 32) else c) s"

definition detect_provider :: "string \<Rightarrow> string" where
  "detect_provider model =
     (let model_lower = lower model
      in if prefix ''claude'' model_lower then ''anthropic''
         else if prefix ''gpt-'' model_lower \<or> prefix ''o1'' model_lower
                 \<or> prefix ''o3'' model_lower then ''openai''
         else if prefix ''gemini'' model_lower then ''google''
         else ''unknown'')"

text \<open>\<open>x or y\<close> on an optional string: \<open>None\<close> and the empty string are false.\<close>

definition str_or :: "string option \<Rightarrow> string \<Rightarrow> string" where
  "str_or a b = (case a of None \<Rightarrow> b | Some s \<Rightarrow> if s \<noteq> [] then s else b)"

text \<open>
  What the code reads from its surroundings: the caller's frame (\<open>inspect.stack()[1]\<close>),
  the two readings of \<open>time.time()\<close> in seconds, and the instant \<open>datetime.now\<close> gives
  to \<open>log_call\<close>.
\<close>

record frame =
  filename :: string
  frame_function :: string

record clock =
  time_start :: rat
  time_end :: rat
  utc_now :: int

text \<open>
  The \<open>wrapper\<close> that \<open>track(model, label, provider)\<close> puts around \<open>func\<close>, whose
  \<open>__name__\<close> is \<open>func_name\<close>. The wrapped function may raise and may use the store. No
  statement of the wrapper catches an exception: one raised in line 115 by \<open>func\<close> ends
  the call there. A model name found in the response that is not a string makes
  \<open>detect_provider\<close> raise \<open>AttributeError\<close> or, with an explicit provider,
  \<open>calculate_cost\<close> raise \<open>TypeError\<close>.
\<close>

definition wrapper ::
  "(pyval \<Rightarrow> string) \<Rightarrow> string \<Rightarrow> string option \<Rightarrow> string option \<Rightarrow> string \<Rightarrow>
   ('a \<Rightarrow> store \<Rightarrow> (error + pyval) \<times> store) \<Rightarrow> frame \<Rightarrow> clock \<Rightarrow> 'a \<Rightarrow> store \<Rightarrow>
   (error + pyval) \<times> store" where
  "wrapper py_str model label provider func_name func fr clk args st =
     (let caller_file = filename fr;
          caller_function = frame_function fr;
          start = time_start clk
      in case func args st of
           (Inl e, st1) \<Rightarrow> (Inl e, st1)
         | (Inr result, st1) \<Rightarrow>
             (let duration_ms = (time_end clk - start) * 1000.0
              in case extract_tokens result of
                   Inl e \<Rightarrow> (Inl e, st1)
                 | Inr (input_tokens, output_tokens) \<Rightarrow>
                     (case py_or (extract_model py_str result) (PStr model) of
                        PStr detected_model \<Rightarrow>
                          (let detected_provider =
                                 str_or provider (detect_provider detected_model)
                           in case calculate_cost detected_model input_tokens output_tokens of
                                Inl e \<Rightarrow> (Inl e, st1)
                              | Inr cost \<Rightarrow>
                                  (case log_call (utc_now clk) st1 detected_provider
                                          detected_model (Some (str_or label func_name))
                                          (Some caller_file) (Some caller_function)
                                          input_tokens output_tokens cost duration_ms None of
                                     (Inl e, st2) \<Rightarrow> (Inl e, st2)
                                   | (Inr new_id, st2) \<Rightarrow> (Inr result, st2)))
                      | _ \<Rightarrow>
                          (Inl (if str_or provider [] \<noteq> [] then TypeError
                                else AttributeError), st1))))"



section \<open>An example store\<close>


section \<open>Properties of pricing.py\<close>

lemma str_in_iff_sublist: "str_in s t \<longleftrightarrow> sublist s t"
  by (induction t) (auto simp: sublist_Cons_right)

lemma str_in_empty: "str_in [] t"
  by (cases t) simp_all

lemma set_SORTED_MODELS: "set SORTED_MODELS = set (map fst PRICING)"
  by (simp add: SORTED_MODELS_def)

lemma sorted_SORTED_MODELS: "sorted (map (\<lambda>k. - int (length k)) SORTED_MODELS)"
  by (simp add: SORTED_MODELS_def)

lemma find_sorted_least:
  "find P xs = Some x \<Longrightarrow> sorted (map f xs) \<Longrightarrow> y \<in> set xs \<Longrightarrow> P y \<Longrightarrow> f x \<le> f y"
  by (induction xs) (auto split: if_splits)

lemma find_Some_member: "find P xs = Some x \<Longrightarrow> x \<in> set xs \<and> P x"
  by (induction xs) (auto split: if_splits)

lemma find_None_none: "find P xs = None \<longleftrightarrow> (\<forall>x\<in>set xs. \<not> P x)"
  by (induction xs) auto

lemma getitem_member:
  "k \<in> set (map fst d) \<Longrightarrow> \<exists>v. map_of d k = Some v \<and> getitem d k = Inr v"
  by (induction d) (auto simp: getitem_def)

lemma find_longest:
  assumes "find P SORTED_MODELS = Some k"
  shows "k \<in> set (map fst PRICING) \<and> P k \<and>
         (\<forall>k'\<in>set (map fst PRICING). P k' \<longrightarrow> length k' \<le> length k)"
proof -
  have m: "k \<in> set SORTED_MODELS \<and> P k" using assms by (rule find_Some_member)
  have "length k' \<le> length k" if "k' \<in> set (map fst PRICING)" "P k'" for k'
  proof -
    have "k' \<in> set SORTED_MODELS" using that(1) by (simp only: set_SORTED_MODELS)
    from find_sorted_least[OF assms sorted_SORTED_MODELS this that(2)]
    show ?thesis by simp
  qed
  with m show ?thesis by (simp only: set_SORTED_MODELS) blast
qed





text \<open>
  Claim C4. \<open>get_model_pricing\<close> follows the priority order of its docstring. A known
  identifier resolves to its own table entry. Otherwise, if some known identifier occurs
  in the given name, the result is the entry of such an identifier of greatest length.
  Otherwise, if the given name occurs in some known identifier, the result is the entry
  of such an identifier of greatest length. Otherwise the result is the empty dict and
  nothing is raised. \<open>gpt-4o-mini-2024-07-18\<close> resolves to the entry of
  \<open>gpt-4o-mini\<close> (which is not the entry of \<open>gpt-4o\<close>), and
  \<open>no-such-model-xyz\<close> resolves to the empty dict.
\<close>

theorem get_model_pricing_priority:
  "(model \<in> set (map fst PRICING) \<longrightarrow>
      (\<exists>p. map_of PRICING model = Some p \<and> get_model_pricing model = Inr p)) \<and>
   (model \<notin> set (map fst PRICING) \<and> (\<exists>k\<in>set (map fst PRICING). str_in k model) \<longrightarrow>
      (\<exists>k p. map_of PRICING k = Some p \<and> str_in k model \<and>
         (\<forall>k'\<in>set (map fst PRICING). str_in k' model \<longrightarrow> length k' \<le> length k) \<and>
         get_model_pricing model = Inr p)) \<and>
   (model \<notin> set (map fst PRICING) \<and> (\<forall>k\<in>set (map fst PRICING). \<not> str_in k model) \<and>
    (\<exists>k\<in>set (map fst PRICING). str_in model k) \<longrightarrow>
      (\<exists>k p. map_of PRICING k = Some p \<and> str_in model k \<and>
         (\<forall>k'\<in>set (map fst PRICING). str_in model k' \<longrightarrow> length k' \<le> length k) \<and>
         get_model_pricing model = Inr p)) \<and>
   (model \<notin> set (map fst PRICING) \<and> (\<forall>k\<in>set (map fst PRICING). \<not> str_in k model) \<and>
    (\<forall>k\<in>set (map fst PRICING). \<not> str_in model k) \<longrightarrow>
      get_model_pricing model = Inr []) \<and>
   get_model_pricing ''gpt-4o-mini-2024-07-18'' = getitem PRICING ''gpt-4o-mini'' \<and>
   get_model_pricing ''gpt-4o-mini-2024-07-18'' \<noteq> getitem PRICING ''gpt-4o'' \<and>
   get_model_pricing ''no-such-model-xyz'' = Inr []"
proof -
  let ?K = "set (map fst PRICING)"
  have exact: "\<exists>p. map_of PRICING model = Some p \<and> get_model_pricing model = Inr p"
    if "model \<in> ?K"
    using getitem_member[OF that] that by (auto simp: get_model_pricing_def)
  have fwd: "\<exists>k p. map_of PRICING k = Some p \<and> str_in k model \<and>
         (\<forall>k'\<in>?K. str_in k' model \<longrightarrow> length k' \<le> length k) \<and>
         get_model_pricing model = Inr p"
    if nk: "model \<notin> ?K" and ex: "\<exists>k\<in>?K. str_in k model"
  proof -
    from ex have "find (\<lambda>k. str_in k model) SORTED_MODELS \<noteq> None"
      by (auto simp only: find_None_none set_SORTED_MODELS)
    then obtain k where f: "find (\<lambda>k. str_in k model) SORTED_MODELS = Some k" by blast
    from find_longest[OF f] have k: "k \<in> ?K" "str_in k model"
      "\<forall>k'\<in>?K. str_in k' model \<longrightarrow> length k' \<le> length k" by blast+
    from getitem_member[OF k(1)] obtain p where
      p: "map_of PRICING k = Some p" "getitem PRICING k = Inr p" by blast
    have "get_model_pricing model = Inr p"
      using nk f p(2) by (simp add: get_model_pricing_def)
    with p(1) k(2,3) show ?thesis by blast
  qed
  have bwd: "\<exists>k p. map_of PRICING k = Some p \<and> str_in model k \<and>
         (\<forall>k'\<in>?K. str_in model k' \<longrightarrow> length k' \<le> length k) \<and>
         get_model_pricing model = Inr p"
    if nk: "model \<notin> ?K" and no: "\<forall>k\<in>?K. \<not> str_in k model"
      and ex: "\<exists>k\<in>?K. str_in model k"
  proof -
    from no have n: "find (\<lambda>k. str_in k model) SORTED_MODELS = None"
      by (auto simp only: find_None_none set_SORTED_MODELS)
    from ex have "find (\<lambda>k. str_in model k) SORTED_MODELS \<noteq> None"
      by (auto simp only: find_None_none set_SORTED_MODELS)
    then obtain k where f: "find (\<lambda>k. str_in model k) SORTED_MODELS = Some k" by blast
    from find_longest[OF f] have k: "k \<in> ?K" "str_in model k"
      "\<forall>k'\<in>?K. str_in model k' \<longrightarrow> length k' \<le> length k" by blast+
    from getitem_member[OF k(1)] obtain p where
      p: "map_of PRICING k = Some p" "getitem PRICING k = Inr p" by blast
    have "get_model_pricing model = Inr p"
      using nk n f p(2) by (simp add: get_model_pricing_def)
    with p(1) k(2,3) show ?thesis by blast
  qed
  have absent: "get_model_pricing model = Inr []"
    if nk: "model \<notin> ?K" and no: "\<forall>k\<in>?K. \<not> str_in k model"
      and no': "\<forall>k\<in>?K. \<not> str_in model k"
  proof -
    from no have n: "find (\<lambda>k. str_in k model) SORTED_MODELS = None"
      by (auto simp only: find_None_none set_SORTED_MODELS)
    from no' have n': "find (\<lambda>k. str_in model k) SORTED_MODELS = None"
      by (auto simp only: find_None_none set_SORTED_MODELS)
    show ?thesis using nk n n' by (simp add: get_model_pricing_def)
  qed
  have e1: "get_model_pricing ''gpt-4o-mini-2024-07-18'' = getitem PRICING ''gpt-4o-mini''"
    by code_simp
  have e2: "get_model_pricing ''gpt-4o-mini-2024-07-18'' \<noteq> getitem PRICING ''gpt-4o''"
    by code_simp
  have e3: "get_model_pricing ''no-such-model-xyz'' = Inr []"
    by code_simp
  show ?thesis using exact fwd bwd absent e1 e2 e3 by blast
qed

theorem get_model_pricing_priority_witness:
  "get_model_pricing ''o1-mini'' = Inr [(''input'', 3.00), (''output'', 12.00)] \<and>
   (\<exists>k p. map_of PRICING k = Some p \<and> str_in k ''o1-preview'' \<and>
      get_model_pricing ''o1-preview'' = Inr p) \<and>
   (\<exists>k p. map_of PRICING k = Some p \<and> str_in ''turbo'' k \<and>
      get_model_pricing ''turbo'' = Inr p) \<and>
   get_model_pricing ''llama-3'' = Inr []"
proof -
  have a: "''o1-mini'' \<in> set (map fst PRICING)" by code_simp
  have b: "''o1-preview'' \<notin> set (map fst PRICING) \<and>
           (\<exists>k\<in>set (map fst PRICING). str_in k ''o1-preview'')" by code_simp
  have c: "''turbo'' \<notin> set (map fst PRICING) \<and>
           (\<forall>k\<in>set (map fst PRICING). \<not> str_in k ''turbo'') \<and>
           (\<exists>k\<in>set (map fst PRICING). str_in ''turbo'' k)" by code_simp
  have d: "''llama-3'' \<notin> set (map fst PRICING) \<and>
           (\<forall>k\<in>set (map fst PRICING). \<not> str_in k ''llama-3'') \<and>
           (\<forall>k\<in>set (map fst PRICING). \<not> str_in ''llama-3'' k)" by code_simp
  have m: "map_of PRICING ''o1-mini'' = Some [(''input'', 3.00), (''output'', 12.00)]"
    by code_simp
  have "get_model_pricing ''o1-mini'' = Inr [(''input'', 3.00), (''output'', 12.00)]"
    using get_model_pricing_priority[of "''o1-mini''"] a m by auto
  moreover have "\<exists>k p. map_of PRICING k = Some p \<and> str_in k ''o1-preview'' \<and>
      get_model_pricing ''o1-preview'' = Inr p"
    using get_model_pricing_priority[of "''o1-preview''"] b by blast
  moreover have "\<exists>k p. map_of PRICING k = Some p \<and> str_in ''turbo'' k \<and>
      get_model_pricing ''turbo'' = Inr p"
    using get_model_pricing_priority[of "''turbo''"] c by blast
  moreover have "get_model_pricing ''llama-3'' = Inr []"
    using get_model_pricing_priority[of "''llama-3''"] d by blast
  ultimately show ?thesis by blast
qed

text \<open>
  Claim C10. For the empty model name \<open>get_model_pricing\<close> returns a non-empty price
  entry: the empty string occurs in every known identifier, so the reverse loop stops at
  the head of \<open>SORTED_MODELS\<close>, the longest identifier
  \<open>claude-3-5-sonnet-20241022\<close>.
\<close>

theorem get_model_pricing_empty_name:
  "get_model_pricing '''' = getitem PRICING ''claude-3-5-sonnet-20241022'' \<and>
   get_model_pricing '''' = Inr [(''input'', 3.00), (''output'', 15.00)] \<and>
   get_model_pricing '''' \<noteq> Inr [] \<and>
   list_all (\<lambda>k. str_in '''' k \<and> length k \<le> length ''claude-3-5-sonnet-20241022'')
     (map fst PRICING)"
  by code_simp


section \<open>Properties of tracker.py and of log_call\<close>

text \<open>
  The claim of C1 as it stands fails: a wrapped function that raises leaves the store
  without any record, so no record with zero tokens is logged before the failure
  propagates.
\<close>

theorem wrapper_failure_not_logged_counterexample:
  "fst (wrapper (\<lambda>v. []) ''gpt-4o'' None None ''my_api_call''
          (\<lambda>(a::unit) st. (Inl (Raised ''boom''), st))
          \<lparr>filename = ''app.py'', frame_function = ''main''\<rparr>
          \<lparr>time_start = 1, time_end = 3, utc_now = 7\<rparr> ()
          \<lparr>calls = [], last_id = 0\<rparr>) = Inl (Raised ''boom'') \<and>
   calls (snd (wrapper (\<lambda>v. []) ''gpt-4o'' None None ''my_api_call''
          (\<lambda>(a::unit) st. (Inl (Raised ''boom''), st))
          \<lparr>filename = ''app.py'', frame_function = ''main''\<rparr>
          \<lparr>time_start = 1, time_end = 3, utc_now = 7\<rparr> ()
          \<lparr>calls = [], last_id = 0\<rparr>)) = []"
  by (simp add: wrapper_def)

text \<open>
  Claim C1, amended. Whenever the wrapped function raises, the wrapper propagates that
  very failure to its caller and logs nothing: the store is the one the wrapped function
  left behind.
\<close>

theorem wrapper_failure_propagates:
  "func args st = (Inl e, st1) \<Longrightarrow>
   wrapper py_str model label provider func_name func fr clk args st = (Inl e, st1)"
  by (simp add: wrapper_def)

theorem wrapper_failure_propagates_witness:
  "wrapper (\<lambda>v. []) ''gpt-4o'' (Some ''summarize'') None ''my_api_call''
     (\<lambda>(a::unit) st. (Inl (Raised ''timeout''), st))
     \<lparr>filename = ''app.py'', frame_function = ''main''\<rparr>
     \<lparr>time_start = 1, time_end = 3, utc_now = 7\<rparr> ()
     \<lparr>calls = [], last_id = 0\<rparr> = (Inl (Raised ''timeout''), \<lparr>calls = [], last_id = 0\<rparr>)"
  by (rule wrapper_failure_propagates) simp






text \<open>
  The claim of C6 as it stands fails in three ways. A usage object with only
  \<open>prompt_tokens\<close> set has no complete pair, yet the generic fallback returns
  \<open>(5, 0)\<close>. A dict response never has its pairs checked in order: the fallback reads
  \<open>input_tokens\<close> before \<open>prompt_tokens\<close>. A field that is present and \<open>None\<close> makes
  \<open>int\<close> raise.
\<close>

theorem extract_tokens_counterexample:
  "extract_tokens (PObj [(''usage'', PObj [(''prompt_tokens'', PInt 5)])]) = Inr (5, 0) \<and>
   extract_tokens (PObj [(''usage'', PObj [(''prompt_tokens'', PInt 5)])]) \<noteq> Inr (0, 0) \<and>
   extract_tokens
     (PDict [(''usage'', PDict [(''prompt_tokens'', PInt 10), (''completion_tokens'', PInt 20),
                                (''input_tokens'', PInt 1), (''output_tokens'', PInt 2)])])
     = Inr (1, 2) \<and>
   extract_tokens (PDict [(''usage'', PDict [(''prompt_tokens'', PNone)])]) = Inl TypeError"
  by (simp add: extract_tokens_def int_pair_def py_or_def dict_get_def)

lemma py_or_int_or_absent:
  assumes "\<forall>k v. map_of kvs k = Some v \<longrightarrow> (\<exists>n. v = PInt n)"
  shows "\<exists>n. py_or (case map_of kvs a of Some v \<Rightarrow> v | None \<Rightarrow> PNone)
                   (case map_of kvs b of Some v \<Rightarrow> v | None \<Rightarrow> PInt 0) = PInt n"
proof (cases "map_of kvs a")
  case None
  then show ?thesis using assms by (cases "map_of kvs b") (auto simp: py_or_def)
next
  case (Some v)
  then obtain n where "v = PInt n" using assms by blast
  then show ?thesis using Some assms by (cases "map_of kvs b") (auto simp: py_or_def)
qed

lemma int_pair_total:
  "\<exists>x. a = PInt x \<Longrightarrow> \<exists>y. b = PInt y \<Longrightarrow> \<exists>x y. int_pair a b = Inr (x, y)"
  by (auto simp: int_pair_def)

text \<open>
  Claim C6, amended. \<open>extract_tokens\<close> returns \<open>(0, 0)\<close> for an absent response, for a
  response that is not a dict and has no usage attribute, and for a dict whose usage
  entry is not a dict. For a response with a usage attribute it converts
  \<open>(prompt_tokens, completion_tokens)\<close> when both are present, else
  \<open>(input_tokens, output_tokens)\<close> when both are present, else the generic fallback:
  \<open>input_tokens or prompt_tokens\<close> (0 when missing) and
  \<open>output_tokens or completion_tokens\<close> (0 when missing). For a dict with a usage dict
  it applies the generic fallback alone. Two integers convert to themselves, and the
  function returns a pair whenever every field of the usage structure holds an integer.
\<close>

theorem extract_tokens_behaviour:
  "extract_tokens PNone = Inr (0, 0) \<and>
   (getattr response ''usage'' PNone = PNone \<and> (\<forall>d. response \<noteq> PDict d) \<longrightarrow>
      extract_tokens response = Inr (0, 0)) \<and>
   (\<forall>d. response = PDict d \<and> (\<forall>ud. dict_get d ''usage'' (PDict []) \<noteq> PDict ud) \<longrightarrow>
      extract_tokens response = Inr (0, 0)) \<and>
   (\<forall>u. getattr response ''usage'' PNone = u \<and> u \<noteq> PNone \<and>
        getattr u ''prompt_tokens'' PNone \<noteq> PNone \<and>
        getattr u ''completion_tokens'' PNone \<noteq> PNone \<longrightarrow>
      extract_tokens response =
        int_pair (getattr u ''prompt_tokens'' PNone) (getattr u ''completion_tokens'' PNone)) \<and>
   (\<forall>u. getattr response ''usage'' PNone = u \<and> u \<noteq> PNone \<and>
        (getattr u ''prompt_tokens'' PNone = PNone \<or>
         getattr u ''completion_tokens'' PNone = PNone) \<and>
        getattr u ''input_tokens'' PNone \<noteq> PNone \<and>
        getattr u ''output_tokens'' PNone \<noteq> PNone \<longrightarrow>
      extract_tokens response =
        int_pair (getattr u ''input_tokens'' PNone) (getattr u ''output_tokens'' PNone)) \<and>
   (\<forall>u. getattr response ''usage'' PNone = u \<and> u \<noteq> PNone \<and>
        (getattr u ''prompt_tokens'' PNone = PNone \<or>
         getattr u ''completion_tokens'' PNone = PNone) \<and>
        (getattr u ''input_tokens'' PNone = PNone \<or>
         getattr u ''output_tokens'' PNone = PNone) \<longrightarrow>
      extract_tokens response =
        int_pair
          (py_or (getattr u ''input_tokens'' PNone) (getattr u ''prompt_tokens'' (PInt 0)))
          (py_or (getattr u ''output_tokens'' PNone) (getattr u ''completion_tokens'' (PInt 0)))) \<and>
   (\<forall>d ud. response = PDict d \<and> dict_get d ''usage'' (PDict []) = PDict ud \<longrightarrow>
      extract_tokens response =
        int_pair
          (py_or (dict_get ud ''input_tokens'' PNone) (dict_get ud ''prompt_tokens'' (PInt 0)))
          (py_or (dict_get ud ''output_tokens'' PNone)
                 (dict_get ud ''completion_tokens'' (PInt 0)))) \<and>
   (\<forall>x y. int_pair (PInt x) (PInt y) = Inr (x, y)) \<and>
   (\<forall>ra ua. response = PObj ra \<and> map_of ra ''usage'' = Some (PObj ua) \<and>
        (\<forall>k v. map_of ua k = Some v \<longrightarrow> (\<exists>n. v = PInt n)) \<longrightarrow>
      (\<exists>x y. extract_tokens response = Inr (x, y))) \<and>
   (\<forall>d ud. response = PDict d \<and> map_of d ''usage'' = Some (PDict ud) \<and>
        (\<forall>k v. map_of ud k = Some v \<longrightarrow> (\<exists>n. v = PInt n)) \<longrightarrow>
      (\<exists>x y. extract_tokens response = Inr (x, y)))"
proof -
  have c1: "extract_tokens PNone = Inr (0, 0)" by (simp add: extract_tokens_def)
  have c2: "extract_tokens response = Inr (0, 0)"
    if "getattr response ''usage'' PNone = PNone" "\<forall>d. response \<noteq> PDict d"
    using that by (cases response) (auto simp: extract_tokens_def)
  have c3: "extract_tokens response = Inr (0, 0)"
    if "response = PDict d" "\<forall>ud. dict_get d ''usage'' (PDict []) \<noteq> PDict ud" for d
    using that by (cases "dict_get d ''usage'' (PDict [])") (auto simp: extract_tokens_def)
  have c4: "extract_tokens response =
        int_pair (getattr u ''prompt_tokens'' PNone) (getattr u ''completion_tokens'' PNone)"
    if "getattr response ''usage'' PNone = u" "u \<noteq> PNone"
      "getattr u ''prompt_tokens'' PNone \<noteq> PNone"
      "getattr u ''completion_tokens'' PNone \<noteq> PNone" for u
    using that by (auto simp: extract_tokens_def Let_def)
  have c5: "extract_tokens response =
        int_pair (getattr u ''input_tokens'' PNone) (getattr u ''output_tokens'' PNone)"
    if "getattr response ''usage'' PNone = u" "u \<noteq> PNone"
      "getattr u ''prompt_tokens'' PNone = PNone \<or>
       getattr u ''completion_tokens'' PNone = PNone"
      "getattr u ''input_tokens'' PNone \<noteq> PNone"
      "getattr u ''output_tokens'' PNone \<noteq> PNone" for u
    using that by (auto simp: extract_tokens_def Let_def)
  have c6: "extract_tokens response =
        int_pair
          (py_or (getattr u ''input_tokens'' PNone) (getattr u ''prompt_tokens'' (PInt 0)))
          (py_or (getattr u ''output_tokens'' PNone) (getattr u ''completion_tokens'' (PInt 0)))"
    if "getattr response ''usage'' PNone = u" "u \<noteq> PNone"
      "getattr u ''prompt_tokens'' PNone = PNone \<or>
       getattr u ''completion_tokens'' PNone = PNone"
      "getattr u ''input_tokens'' PNone = PNone \<or>
       getattr u ''output_tokens'' PNone = PNone" for u
    using that by (auto simp: extract_tokens_def Let_def)
  have c7: "extract_tokens response =
        int_pair
          (py_or (dict_get ud ''input_tokens'' PNone) (dict_get ud ''prompt_tokens'' (PInt 0)))
          (py_or (dict_get ud ''output_tokens'' PNone)
                 (dict_get ud ''completion_tokens'' (PInt 0)))"
    if "response = PDict d" "dict_get d ''usage'' (PDict []) = PDict ud" for d ud
    using that by (simp add: extract_tokens_def)
  have c8: "\<forall>x y. int_pair (PInt x) (PInt y) = Inr (x, y)" by (simp add: int_pair_def)
  have c9: "\<exists>x y. extract_tokens response = Inr (x, y)"
    if r: "response = PObj ra" and u: "map_of ra ''usage'' = Some (PObj ua)"
      and ints: "\<forall>k v. map_of ua k = Some v \<longrightarrow> (\<exists>n. v = PInt n)" for ra ua
  proof -
    let ?u = "PObj ua"
    have gu: "getattr response ''usage'' PNone = ?u" using r u by simp
    have fld: "getattr ?u k PNone = PNone \<or> (\<exists>n. getattr ?u k PNone = PInt n)" for k
      using ints by (cases "map_of ua k") auto
    have fb: "\<exists>n. py_or (getattr ?u a PNone) (getattr ?u b (PInt 0)) = PInt n" for a b
      using py_or_int_or_absent[OF ints, of a b] by simp
    consider
      (p) "getattr ?u ''prompt_tokens'' PNone \<noteq> PNone"
          "getattr ?u ''completion_tokens'' PNone \<noteq> PNone"
      | (i) "getattr ?u ''prompt_tokens'' PNone = PNone \<or>
             getattr ?u ''completion_tokens'' PNone = PNone"
            "getattr ?u ''input_tokens'' PNone \<noteq> PNone"
            "getattr ?u ''output_tokens'' PNone \<noteq> PNone"
      | (f) "getattr ?u ''prompt_tokens'' PNone = PNone \<or>
             getattr ?u ''completion_tokens'' PNone = PNone"
            "getattr ?u ''input_tokens'' PNone = PNone \<or>
             getattr ?u ''output_tokens'' PNone = PNone"
      by blast
    then show ?thesis
    proof cases
      case p
      with fld[of "''prompt_tokens''"] fld[of "''completion_tokens''"]
      have "\<exists>x. getattr ?u ''prompt_tokens'' PNone = PInt x"
        "\<exists>y. getattr ?u ''completion_tokens'' PNone = PInt y" by blast+
      from int_pair_total[OF this] c4[OF gu _ p] show ?thesis by simp
    next
      case i
      with fld[of "''input_tokens''"] fld[of "''output_tokens''"]
      have "\<exists>x. getattr ?u ''input_tokens'' PNone = PInt x"
        "\<exists>y. getattr ?u ''output_tokens'' PNone = PInt y" by blast+
      from int_pair_total[OF this] c5[OF gu _ i] show ?thesis by simp
    next
      case f
      from int_pair_total[OF fb fb] c6[OF gu _ f] show ?thesis by simp
    qed
  qed
  have c10: "\<exists>x y. extract_tokens response = Inr (x, y)"
    if r: "response = PDict d" and u: "map_of d ''usage'' = Some (PDict ud)"
      and ints: "\<forall>k v. map_of ud k = Some v \<longrightarrow> (\<exists>n. v = PInt n)" for d ud
  proof -
    have g: "dict_get d ''usage'' (PDict []) = PDict ud" using u by (simp add: dict_get_def)
    have fb: "\<exists>n. py_or (dict_get ud a PNone) (dict_get ud b (PInt 0)) = PInt n" for a b
      using py_or_int_or_absent[OF ints, of a b] by (simp add: dict_get_def)
    from int_pair_total[OF fb fb] c7[OF r g] show ?thesis by simp
  qed
  show ?thesis
    apply (intro conjI allI impI)
    subgoal by (rule c1)
    subgoal using c2 by blast
    subgoal using c3 by blast
    subgoal using c4 by blast
    subgoal using c5 by blast
    subgoal using c6 by blast
    subgoal using c7 by blast
    subgoal by (simp add: int_pair_def)
    subgoal using c9 by blast
    subgoal using c10 by blast
    done
qed


theorem extract_tokens_behaviour_witness:
  "extract_tokens (PObj []) = Inr (0, 0) \<and>
   extract_tokens (PDict [(''usage'', PInt 7)]) = Inr (0, 0) \<and>
   extract_tokens
     (PObj [(''usage'', PObj [(''prompt_tokens'', PInt 300), (''completion_tokens'', PInt 150)]),
            (''model'', PStr ''gpt-4o'')]) = Inr (300, 150) \<and>
   extract_tokens
     (PObj [(''usage'', PObj [(''input_tokens'', PInt 400), (''output_tokens'', PInt 200)])])
     = Inr (400, 200) \<and>
   extract_tokens
     (PObj [(''usage'', PObj [(''output_tokens'', PInt 0), (''completion_tokens'', PInt 9)])])
     = Inr (0, 9) \<and>
   extract_tokens
     (PDict [(''usage'', PDict [(''prompt_tokens'', PInt 50), (''completion_tokens'', PInt 25)])])
     = Inr (50, 25)"
proof -
  have 1: "extract_tokens (PObj []) = Inr (0, 0)"
    using extract_tokens_behaviour[of "PObj []"] by simp
  have 2: "extract_tokens (PDict [(''usage'', PInt 7)]) = Inr (0, 0)"
    using extract_tokens_behaviour[of "PDict [(''usage'', PInt 7)]"]
    by (simp add: dict_get_def)
  have 3: "extract_tokens
     (PObj [(''usage'', PObj [(''prompt_tokens'', PInt 300), (''completion_tokens'', PInt 150)]),
            (''model'', PStr ''gpt-4o'')]) = Inr (300, 150)"
    using extract_tokens_behaviour[of
        "PObj [(''usage'', PObj [(''prompt_tokens'', PInt 300),
                                 (''completion_tokens'', PInt 150)]),
               (''model'', PStr ''gpt-4o'')]"]
    by simp
  have 4: "extract_tokens
     (PObj [(''usage'', PObj [(''input_tokens'', PInt 400), (''output_tokens'', PInt 200)])])
     = Inr (400, 200)"
    using extract_tokens_behaviour[of
        "PObj [(''usage'', PObj [(''input_tokens'', PInt 400), (''output_tokens'', PInt 200)])]"]
    by simp
  have 5: "extract_tokens
     (PObj [(''usage'', PObj [(''output_tokens'', PInt 0), (''completion_tokens'', PInt 9)])])
     = Inr (0, 9)"
    using extract_tokens_behaviour[of
        "PObj [(''usage'', PObj [(''output_tokens'', PInt 0), (''completion_tokens'', PInt 9)])]"]
    by (simp add: py_or_def)
  have 6: "extract_tokens
     (PDict [(''usage'', PDict [(''prompt_tokens'', PInt 50), (''completion_tokens'', PInt 25)])])
     = Inr (50, 25)"
    using extract_tokens_behaviour[of
        "PDict [(''usage'', PDict [(''prompt_tokens'', PInt 50),
                                   (''completion_tokens'', PInt 25)])]"]
    by (simp add: py_or_def dict_get_def)
  from 1 2 3 4 5 6 show ?thesis by blast
qed

section \<open>Properties of store.py\<close>



















end
